theory Spec2Isabelle
  imports Main "HOL-Library.Word"
begin

section \<open>Errors\<close>

text \<open>
  Go's \<open>error\<close> values.  The named constructors are the error taxonomy of the
  specification; every other error (an I/O failure, a listener that cannot bind, ...)
  is \<open>OtherError\<close> with its message.  A Go result \<open>err\<close> is an \<open>error option\<close>,
  \<open>None\<close> standing for \<open>nil\<close>.
\<close>

datatype error =
    EngineOpenError
  | UnsupportedVersionError
  | ChainLinkageError
  | EmptyChainError
  | IndexDependencyError
  | NotFoundError
  | MigrationError
  | OtherError string

section \<open>Index Manager\<close>

datatype index_kind = TransactionIndex | AddressIndex

text \<open>
  The two derived indexes of the block database.  \<open>None\<close>: the index does not exist.
  A transaction index entry maps a transaction id to (block id, offset), an address
  index entry maps an address to its ordered transaction ids.
\<close>

record index_store =
  tx_index :: "(nat \<times> nat \<times> nat) list option"
  addr_index :: "(nat \<times> nat list) list option"

text \<open>Modelled from the spec: \<open>HasIndex(kind)\<close> of the Index Manager (package
  \<open>indexers\<close> is not part of the source at hand).\<close>

fun HasIndex :: "index_kind \<Rightarrow> index_store \<Rightarrow> bool" where
  "HasIndex TransactionIndex s = (tx_index s \<noteq> None)"
| "HasIndex AddressIndex s = (addr_index s \<noteq> None)"

text \<open>Modelled from the spec: removing the stored data of one index kind.\<close>

fun drop_data :: "index_kind \<Rightarrow> index_store \<Rightarrow> index_store" where
  "drop_data TransactionIndex s = s\<lparr>tx_index := None\<rparr>"
| "drop_data AddressIndex s = s\<lparr>addr_index := None\<rparr>"

text \<open>Modelled from the spec: the order in which \<open>DropIndex(kind)\<close> removes index
  data.  ``\<open>DropIndex(TransactionIndex)\<close> first internally performs
  \<open>DropIndex(AddressIndex)\<close> if present, then drops its own data.''\<close>

function drop_steps :: "index_kind \<Rightarrow> index_store \<Rightarrow> index_kind list" where
  "drop_steps AddressIndex s = [AddressIndex]"
| "drop_steps TransactionIndex s =
     (if HasIndex AddressIndex s then drop_steps AddressIndex s else []) @ [TransactionIndex]"
  by pat_completeness auto
termination
  by (relation "measure (\<lambda>(k, s). case k of TransactionIndex \<Rightarrow> Suc 0 | AddressIndex \<Rightarrow> 0)") auto

text \<open>Modelled from the spec: \<open>DropIndex(kind)\<close> performs its steps in order.\<close>

definition DropIndex :: "index_kind \<Rightarrow> index_store \<Rightarrow> index_store" where
  "DropIndex k s = fold drop_data (drop_steps k s) s"

text \<open>
  Modelled from the spec: \<open>indexers.DropAddrIndex(db)\<close> and \<open>indexers.DropTxIndex(db)\<close>,
  which \<open>ltcdMain\<close> calls.  The first argument is the failure of the storage engine, if
  any: the drop is one update, which commits entirely or is rolled back entirely.
\<close>

definition indexers_DropAddrIndex :: "error option \<Rightarrow> index_store \<Rightarrow> error option \<times> index_store" where
  "indexers_DropAddrIndex failure db =
     (case failure of
        Some err \<Rightarrow> (Some err, db)
      | None \<Rightarrow> (None, DropIndex AddressIndex db))"

definition indexers_DropTxIndex :: "error option \<Rightarrow> index_store \<Rightarrow> error option \<times> index_store" where
  "indexers_DropTxIndex failure db =
     (case failure of
        Some err \<Rightarrow> (Some err, db)
      | None \<Rightarrow> (None, DropIndex TransactionIndex db))"

section \<open>The lifecycle entry point \<open>ltcdMain\<close>\<close>

text \<open>The fields of \<open>cfg\<close> that \<open>ltcdMain\<close> reads.\<close>

record config =
  Profile :: string
  CPUProfile :: string
  DropAddrIndex :: bool
  DropTxIndex :: bool
  Listeners :: "string list"

text \<open>
  What \<open>ltcdMain\<close> does to the outside, in the order in which it does it: every call
  of a function of another file (with the error it returned, where it returns one), every
  log line, the goroutine it starts and its two channel operations.
\<close>

datatype event =
    Call_loadConfig "error option"
  | Call_interruptListener
  | Log_Version
  | Go_profileServer
  | Call_os_Create "error option"
  | Log_Error
  | Call_StartCPUProfile
  | Call_doUpgrades "error option"
  | Call_interruptRequested bool
  | Call_loadBlockDB "error option"
  | Call_DropAddrIndex "error option"
  | Call_DropTxIndex "error option"
  | Call_newServer "error option"
  | Call_server_Start
  | Send_serverChan
  | Recv_interruptedChan
  | Call_backendLog_Flush
  | Log_ShutdownComplete
  | Call_f_Close
  | Call_StopCPUProfile
  | Log_DbShutdown
  | Call_db_Close
  | Log_ServerShutdown
  | Call_server_Stop
  | Call_server_WaitForShutdown
  | Log_ServerShutdownComplete

text \<open>
  The results of the calls that \<open>ltcdMain\<close> makes into the rest of the program, which
  one run of it meets.  \<open>interruptRequested_1\<close> and \<open>interruptRequested_2\<close> are what
  \<open>interruptRequested(interruptedChan)\<close> returns at line 84 and at line 101;
  \<open>interruptedChan_closes\<close> tells whether the receive of line 148 ever completes.
  \<open>blockdb\<close> is the index state of the database that \<open>loadBlockDB\<close> opens.
\<close>

record env =
  loadConfig :: "error + config"
  os_Create :: "error option"
  doUpgrades :: "error option"
  interruptRequested_1 :: bool
  loadBlockDB :: "error option"
  blockdb :: index_store
  interruptRequested_2 :: bool
  DropAddrIndex_failure :: "error option"
  DropTxIndex_failure :: "error option"
  newServer :: "error option"
  interruptedChan_closes :: bool

text \<open>
  How a run ends: \<open>ltcdMain\<close> returns \<open>err\<close>, or it blocks for ever on a channel.
\<close>

datatype outcome = Returned "error option" | Blocked

text \<open>
  A run: its events, how it ended, and the index state in which the calls of
  \<open>ltcdMain\<close> into package \<open>indexers\<close> left the block database (what the serving
  components do to the database while they run is not part of this model).
\<close>

record run =
  events :: "event list"
  outcome :: outcome
  db_after :: index_store

text \<open>
  A \<open>return\<close> of Go: the deferred calls run, the one deferred last first.  \<open>d\<close> is
  the stack of deferred calls, each with the events it produces.
\<close>

definition return_from :: "event list \<Rightarrow> event list list \<Rightarrow> error option \<Rightarrow> index_store \<Rightarrow> run" where
  "return_from t d err db = \<lparr>events = t @ concat d, outcome = Returned err, db_after = db\<rparr>"

text \<open>A channel operation that never completes: no deferred call runs.\<close>

definition blocked_at :: "event list \<Rightarrow> index_store \<Rightarrow> run" where
  "blocked_at t db = \<lparr>events = t, outcome = Blocked, db_after = db\<rparr>"

text \<open>
  \<open>ltcdMain(serverChan)\<close>, cut at its comments into five parts, the last part first.
  Each part takes the trace \<open>t\<close> of the events so far and the stack \<open>d\<close> of the calls
  deferred so far, and ends the run or goes on with the next part.  \<open>serverChan\<close> is
  \<open>None\<close> for \<open>nil\<close>, and \<open>Some r\<close> for a channel on which the send of line 142
  completes (\<open>r\<close>) or blocks for ever (\<open>\<not> r\<close>).
\<close>

text \<open>Lines 126 to 149: ``Create server and start it'', wait for the interrupt.\<close>

definition ltcdMain_server :: "env \<Rightarrow> bool option \<Rightarrow> event list \<Rightarrow> event list list \<Rightarrow> run" where
  "ltcdMain_server e serverChan t d =
     (case newServer e of
        Some err \<Rightarrow>
          return_from (t @ [Call_newServer (Some err), Log_Error]) d (Some err) (blockdb e)
      | None \<Rightarrow>
          let t = t @ [Call_newServer None];
              d = [Log_ServerShutdown, Call_server_Stop, Call_server_WaitForShutdown,
                   Log_ServerShutdownComplete] # d;
              t = t @ [Call_server_Start]
          in
          if serverChan = Some False then blocked_at t (blockdb e)
          else
            let t = (if serverChan \<noteq> None then t @ [Send_serverChan] else t) in
            if interruptedChan_closes e then
              return_from (t @ [Recv_interruptedChan]) d None (blockdb e)
            else blocked_at t (blockdb e))"

text \<open>Lines 105 to 124: ``Drop indexes and exit if requested.''\<close>

definition ltcdMain_dropIndexes ::
    "env \<Rightarrow> config \<Rightarrow> bool option \<Rightarrow> event list \<Rightarrow> event list list \<Rightarrow> run" where
  "ltcdMain_dropIndexes e cfg serverChan t d =
     (if DropAddrIndex cfg then
        (case indexers_DropAddrIndex (DropAddrIndex_failure e) (blockdb e) of
           (Some err, db') \<Rightarrow>
             return_from (t @ [Call_DropAddrIndex (Some err), Log_Error]) d (Some err) db'
         | (None, db') \<Rightarrow>
             return_from (t @ [Call_DropAddrIndex None]) d None db')
      else if DropTxIndex cfg then
        (case indexers_DropTxIndex (DropTxIndex_failure e) (blockdb e) of
           (Some err, db') \<Rightarrow>
             return_from (t @ [Call_DropTxIndex (Some err), Log_Error]) d (Some err) db'
         | (None, db') \<Rightarrow>
             return_from (t @ [Call_DropTxIndex None]) d None db')
      else ltcdMain_server e serverChan t d)"

text \<open>Lines 88 to 103: ``Load the block database'', defer its close, second
  interrupt check.\<close>

definition ltcdMain_loadBlockDB ::
    "env \<Rightarrow> config \<Rightarrow> bool option \<Rightarrow> event list \<Rightarrow> event list list \<Rightarrow> run" where
  "ltcdMain_loadBlockDB e cfg serverChan t d =
     (case loadBlockDB e of
        Some err \<Rightarrow>
          return_from (t @ [Call_loadBlockDB (Some err), Log_Error]) d (Some err) (blockdb e)
      | None \<Rightarrow>
          let t = t @ [Call_loadBlockDB None];
              d = [Log_DbShutdown, Call_db_Close] # d
          in
          if interruptRequested_2 e then
            return_from (t @ [Call_interruptRequested True]) d None (blockdb e)
          else ltcdMain_dropIndexes e cfg serverChan (t @ [Call_interruptRequested False]) d)"

text \<open>Lines 77 to 86: ``Perform upgrades to ltcd as new versions require it'', first
  interrupt check.\<close>

definition ltcdMain_doUpgrades ::
    "env \<Rightarrow> config \<Rightarrow> bool option \<Rightarrow> event list \<Rightarrow> event list list \<Rightarrow> run" where
  "ltcdMain_doUpgrades e cfg serverChan t d =
     (case doUpgrades e of
        Some err \<Rightarrow>
          return_from (t @ [Call_doUpgrades (Some err), Log_Error]) d (Some err) (blockdb e)
      | None \<Rightarrow>
          let t = t @ [Call_doUpgrades None] in
          if interruptRequested_1 e then
            return_from (t @ [Call_interruptRequested True]) d None (blockdb e)
          else ltcdMain_loadBlockDB e cfg serverChan (t @ [Call_interruptRequested False]) d)"

text \<open>Lines 34 to 75: configuration, interrupt listener, the two profiles; then the
  rest.  This is \<open>ltcdMain\<close>.\<close>

definition ltcdMain :: "env \<Rightarrow> bool option \<Rightarrow> run" where
  "ltcdMain e serverChan =
     (case loadConfig e of
        Inl err \<Rightarrow> return_from [Call_loadConfig (Some err)] [] (Some err) (blockdb e)
      | Inr cfg \<Rightarrow>
          let t = [Call_loadConfig None];
              d = [[Call_backendLog_Flush]];
              t = t @ [Call_interruptListener];
              d = [Log_ShutdownComplete] # d;
              t = t @ [Log_Version];
              t = (if Profile cfg \<noteq> [] then t @ [Go_profileServer] else t)
          in
          if CPUProfile cfg \<noteq> [] then
            (case os_Create e of
               Some err \<Rightarrow>
                 return_from (t @ [Call_os_Create (Some err), Log_Error]) d (Some err) (blockdb e)
             | None \<Rightarrow>
                 ltcdMain_doUpgrades e cfg serverChan
                   (t @ [Call_os_Create None, Call_StartCPUProfile])
                   ([Call_StopCPUProfile] # [Call_f_Close] # d))
          else ltcdMain_doUpgrades e cfg serverChan t d)"

text \<open>
  \<open>main()\<close>, as far as the exit status of the process: \<open>os.Exit(1)\<close> is \<open>Some 1\<close>,
  \<open>os.Exit(0)\<close> and the return from \<open>main\<close> are \<open>Some 0\<close>, and \<open>None\<close> is a process
  that never exits.  \<open>main_env\<close> holds the results of the calls that \<open>main\<close> makes before
  it calls \<open>ltcdMain(nil)\<close>.
\<close>

record main_env =
  SetLimits :: "error option"
  GOOS :: string
  winServiceMain :: "bool \<times> error option"

definition main :: "main_env \<Rightarrow> env \<Rightarrow> nat option" where
  "main m e =
     (let run_ltcdMain =
            (case outcome (ltcdMain e None) of
               Returned (Some err) \<Rightarrow> Some 1
             | Returned None \<Rightarrow> Some 0
             | Blocked \<Rightarrow> None)
      in
      if SetLimits m \<noteq> None then Some 1
      else if GOOS m = ''windows'' then
        (case winServiceMain m of
           (isService, Some err) \<Rightarrow> Some 1
         | (isService, None) \<Rightarrow> if isService then Some 0 else run_ltcdMain)
      else run_ltcdMain)"

section \<open>Upgrade Engine\<close>

text \<open>The stored data: the schema version and the bytes of everything else.\<close>

record store =
  schema_version :: nat
  stored_bytes :: "8 word list"

text \<open>A migration step is a transformation of the stored bytes that may fail.\<close>

type_synonym migration = "8 word list \<Rightarrow> error + 8 word list"

text \<open>Modelled from the spec: the migration steps of the Upgrade Engine, applied in
  strict order (the code of \<open>doUpgrades\<close> is not part of the source at hand).  Each step
  is one atomic update: its transformation and the version bump both commit, or, when the
  step fails, neither does, and the engine stops with the error.\<close>

fun apply_migrations :: "migration list \<Rightarrow> store \<Rightarrow> error option \<times> store" where
  "apply_migrations [] s = (None, s)"
| "apply_migrations (step # steps) s =
     (case step (stored_bytes s) of
        Inl err \<Rightarrow> (Some err, s)
      | Inr bytes \<Rightarrow>
          apply_migrations steps \<lparr>schema_version = Suc (schema_version s), stored_bytes = bytes\<rparr>)"

text \<open>Modelled from the spec: the Upgrade Engine on open.  \<open>steps ! i\<close> migrates
  version \<open>i\<close> to version \<open>i + 1\<close>, so the current version of the software is
  \<open>length steps\<close>.  ``Read stored version S; if S == current, no-op; if S > current, fail
  fatally with \<open>UnsupportedVersionError\<close>; if S < current, apply migration steps
  S\<rightarrow>S+1\<rightarrow>...\<rightarrow>current in strict order.''\<close>

definition upgrade :: "migration list \<Rightarrow> store \<Rightarrow> error option \<times> store" where
  "upgrade steps s =
     (let current = length steps; S = schema_version s in
      if S = current then (None, s)
      else if S > current then (Some UnsupportedVersionError, s)
      else apply_migrations (drop S steps) s)"

section \<open>Block Store\<close>

type_synonym block_id = nat

text \<open>A spend record: the prior outputs (transaction id, output number) that a block
  consumed.\<close>

type_synonym spend_record = "(nat \<times> nat) list"

datatype status = Valid | Invalid | Unknown

record chain_index_entry =
  height :: nat
  cumulative_work :: nat
  status :: status
  parent :: "block_id option"

text \<open>The chain state: the chain tip, the chain index entries and the spend journal.\<close>

record chain_state =
  tip :: block_id
  chain_index :: "block_id \<rightharpoonup> chain_index_entry"
  spend_journal :: "block_id \<rightharpoonup> spend_record"

text \<open>Modelled from the spec: \<open>ConnectBlock(blockId, spendRecord)\<close> (the block store is
  not part of the source at hand).  ``Promotes the named block to the new Chain Tip;
  requires the block's parent to already equal the current tip; records the Spend Record;
  fails with \<open>ChainLinkageError\<close> if the parent does not match.''  A block without a chain
  index entry has no parent that could match.\<close>

definition ConnectBlock :: "block_id \<Rightarrow> spend_record \<Rightarrow> chain_state \<Rightarrow> error + chain_state" where
  "ConnectBlock blockId spendRecord S =
     (case chain_index S blockId of
        None \<Rightarrow> Inl ChainLinkageError
      | Some entry \<Rightarrow>
          if parent entry = Some (tip S) then
            Inr (S\<lparr>tip := blockId, spend_journal := (spend_journal S)(blockId \<mapsto> spendRecord)\<rparr>)
          else Inl ChainLinkageError)"

text \<open>Modelled from the spec: \<open>DisconnectTip()\<close>.  ``Reverses the current tip using its
  stored Spend Record, restores the previous tip, and returns the disconnected block id.
  Fails with \<open>EmptyChainError\<close> if already at genesis.''  The genesis entry is the one
  without a parent; after the disconnect the spend journal entry of the block is gone
  (scenario of section 8).  A tip whose chain index entry or whose spend record is not
  stored cannot be reversed: \<open>NotFoundError\<close>.\<close>

definition DisconnectTip :: "chain_state \<Rightarrow> error + (block_id \<times> chain_state)" where
  "DisconnectTip S =
     (case chain_index S (tip S) of
        None \<Rightarrow> Inl NotFoundError
      | Some entry \<Rightarrow>
          (case parent entry of
             None \<Rightarrow> Inl EmptyChainError
           | Some previous \<Rightarrow>
               (case spend_journal S (tip S) of
                  None \<Rightarrow> Inl NotFoundError
                | Some spendRecord \<Rightarrow>
                    Inr (tip S,
                         S\<lparr>tip := previous, spend_journal := (spend_journal S)(tip S := None)\<rparr>))))"

section \<open>Order of events in a run\<close>

text \<open>\<open>precedes a b xs\<close>: both occur in \<open>xs\<close>, and \<open>a\<close> occurs before the first \<open>b\<close>.\<close>

fun precedes :: "'a \<Rightarrow> 'a \<Rightarrow> 'a list \<Rightarrow> bool" where
  "precedes a b [] = False"
| "precedes a b (x # xs) =
     (if x = b then False else if x = a then b \<in> set xs else precedes a b xs)"

text \<open>\<open>only_after a b xs\<close>: no \<open>b\<close> occurs in \<open>xs\<close> unless an \<open>a\<close> has occurred before it.\<close>

fun only_after :: "'a \<Rightarrow> 'a \<Rightarrow> 'a list \<Rightarrow> bool" where
  "only_after a b [] = True"
| "only_after a b (x # xs) =
     (if x = b then False else if x = a then True else only_after a b xs)"

text \<open>\<open>events_after a xs\<close>: the events of \<open>xs\<close> after the first \<open>a\<close>.\<close>

definition events_after :: "'a \<Rightarrow> 'a list \<Rightarrow> 'a list" where
  "events_after a xs = tl (dropWhile (\<lambda>x. x \<noteq> a) xs)"

section \<open>The shape of a run\<close>

text \<open>
  \<open>frame t d r\<close> is the run \<open>r\<close> when it starts after the events \<open>t\<close> with the calls
  \<open>d\<close> already deferred: \<open>t\<close> comes first, and the calls of \<open>d\<close> run at the end if the
  run returns.
\<close>

definition frame :: "event list \<Rightarrow> event list list \<Rightarrow> run \<Rightarrow> run" where
  "frame t d r =
     r\<lparr>events := t @ events r @ (case outcome r of Returned err \<Rightarrow> concat d | Blocked \<Rightarrow> [])\<rparr>"

text \<open>The events of lines 34 to 75 when nothing fails, and the calls deferred there.\<close>

definition startup_trace :: "config \<Rightarrow> event list" where
  "startup_trace cfg =
     [Call_loadConfig None, Call_interruptListener, Log_Version]
     @ (if Profile cfg \<noteq> [] then [Go_profileServer] else [])"

definition cpu_trace :: "config \<Rightarrow> event list" where
  "cpu_trace cfg = (if CPUProfile cfg \<noteq> [] then [Call_os_Create None, Call_StartCPUProfile] else [])"

definition startup_deferred :: "config \<Rightarrow> event list list" where
  "startup_deferred cfg =
     (if CPUProfile cfg \<noteq> [] then [[Call_StopCPUProfile], [Call_f_Close]] else [])
     @ [[Log_ShutdownComplete], [Call_backendLog_Flush]]"

text \<open>The events of lines 34 to 75 and of the calls deferred there.\<close>

definition startup_events :: "event set" where
  "startup_events =
     {Call_loadConfig None, Call_interruptListener, Log_Version, Go_profileServer,
      Call_os_Create None, Call_StartCPUProfile,
      Call_StopCPUProfile, Call_f_Close, Log_ShutdownComplete, Call_backendLog_Flush}"

section \<open>Example runs and stores\<close>

text \<open>An example run: default configuration, nothing fails, the interrupt arrives while
  the server runs.\<close>

definition example_cfg :: config where
  "example_cfg = \<lparr>Profile = [], CPUProfile = [], DropAddrIndex = False, DropTxIndex = False,
     Listeners = []\<rparr>"

definition example_db :: index_store where
  "example_db = \<lparr>tx_index = Some [(7, 1, 0)], addr_index = Some [(3, [7])]\<rparr>"

definition example_env :: env where
  "example_env = \<lparr>loadConfig = Inr example_cfg, os_Create = None, doUpgrades = None,
     interruptRequested_1 = False, loadBlockDB = None, blockdb = example_db,
     interruptRequested_2 = False, DropAddrIndex_failure = None, DropTxIndex_failure = None,
     newServer = None, interruptedChan_closes = True\<rparr>"

text \<open>Further runs: the transaction index drop is requested; both drops are requested;
  the interrupt arrives before the second checkpoint.\<close>

definition dropTx_env :: env where
  "dropTx_env = example_env\<lparr>loadConfig := Inr (example_cfg\<lparr>DropTxIndex := True\<rparr>)\<rparr>"

definition dropBoth_env :: env where
  "dropBoth_env =
     example_env\<lparr>loadConfig := Inr (example_cfg\<lparr>DropAddrIndex := True, DropTxIndex := True\<rparr>)\<rparr>"

definition interrupted_env :: env where
  "interrupted_env = example_env\<lparr>interruptRequested_2 := True\<rparr>"

text \<open>Two migration steps, and a chain of the genesis block 0 and a block 1 on top
  of it that is not yet connected.\<close>

definition example_steps :: "migration list" where
  "example_steps = [\<lambda>bytes. Inr (bytes @ [1]), \<lambda>bytes. Inr (0 # bytes)]"

definition example_chain :: chain_state where
  "example_chain =
     \<lparr>tip = 0,
      chain_index =
        [0 \<mapsto> \<lparr>height = 0, cumulative_work = 1, status = Valid, parent = None\<rparr>,
         1 \<mapsto> \<lparr>height = 1, cumulative_work = 2, status = Valid, parent = Some 0\<rparr>],
      spend_journal = Map.empty\<rparr>"

section \<open>Runs of \<open>ltcdMain\<close>\<close>

subsection \<open>Runs in a frame\<close>

lemma frame_return_from: "frame t d (return_from t' d' err db) = return_from (t @ t') (d' @ d) err db"
  by (simp add: frame_def return_from_def)

lemma frame_blocked_at: "frame t d (blocked_at t' db) = blocked_at (t @ t') db"
  by (simp add: frame_def blocked_at_def)

lemma frame_frame: "frame t d (frame t' d' r) = frame (t @ t') (d' @ d) r"
  by (cases "outcome r") (simp_all add: frame_def)

lemma server_frame: "ltcdMain_server e sc t d = frame t d (ltcdMain_server e sc [] [])"
  by (simp add: ltcdMain_server_def frame_return_from frame_blocked_at Let_def split: option.split)

lemma dropIndexes_frame:
  "ltcdMain_dropIndexes e cfg sc t d = frame t d (ltcdMain_dropIndexes e cfg sc [] [])"
  by (simp add: ltcdMain_dropIndexes_def frame_return_from server_frame [of e sc t d]
      split: option.split prod.split)

lemma loadBlockDB_frame:
  "ltcdMain_loadBlockDB e cfg sc t d = frame t d (ltcdMain_loadBlockDB e cfg sc [] [])"
  by (simp add: ltcdMain_loadBlockDB_def frame_return_from Let_def frame_frame
      dropIndexes_frame [of e cfg sc "t @ _" "_ # d"] dropIndexes_frame [of e cfg sc "[_, _]" "[_]"]
      split: option.split)

lemma doUpgrades_frame:
  "ltcdMain_doUpgrades e cfg sc t d = frame t d (ltcdMain_doUpgrades e cfg sc [] [])"
  by (simp add: ltcdMain_doUpgrades_def frame_return_from Let_def frame_frame
      loadBlockDB_frame [of e cfg sc "t @ _" "d"] loadBlockDB_frame [of e cfg sc "[_, _]" "[]"]
      split: option.split)

text \<open>The three kinds of runs of \<open>ltcdMain\<close>: the configuration cannot be loaded; the
  CPU profile cannot be created; or the run of lines 77 to 149, in the frame of lines 34
  to 75.\<close>

lemma ltcdMain_cases [case_names config_failed profile_failed started]:
  obtains
    (config_failed) err where "loadConfig e = Inl err"
      and "ltcdMain e sc = return_from [Call_loadConfig (Some err)] [] (Some err) (blockdb e)"
  | (profile_failed) cfg err where "loadConfig e = Inr cfg"
      and "ltcdMain e sc =
             return_from (startup_trace cfg @ [Call_os_Create (Some err), Log_Error])
               [[Log_ShutdownComplete], [Call_backendLog_Flush]] (Some err) (blockdb e)"
  | (started) cfg where "loadConfig e = Inr cfg"
      and "ltcdMain e sc =
             frame (startup_trace cfg @ cpu_trace cfg) (startup_deferred cfg)
               (ltcdMain_doUpgrades e cfg sc [] [])"
proof (cases "loadConfig e")
  case (Inl err)
  then show ?thesis using config_failed [of err] by (simp add: ltcdMain_def)
next
  case (Inr cfg)
  show ?thesis
  proof (cases "CPUProfile cfg = []")
    case True
    with Inr show ?thesis
      using started [of cfg]
      by (simp add: ltcdMain_def Let_def startup_trace_def cpu_trace_def startup_deferred_def
          doUpgrades_frame [of e cfg sc "_ # _" "_ # _"])
  next
    case False
    show ?thesis
    proof (cases "os_Create e")
      case None
      with Inr False show ?thesis
        using started [of cfg]
        by (simp add: ltcdMain_def Let_def startup_trace_def cpu_trace_def startup_deferred_def
            doUpgrades_frame [of e cfg sc "_ # _" "_ # _"])
    next
      case (Some err)
      with Inr False show ?thesis
        using profile_failed [of cfg err]
        by (simp add: ltcdMain_def Let_def startup_trace_def)
    qed
  qed
qed

subsection \<open>Order predicates\<close>

lemma precedes_append:
  "a \<notin> set t \<Longrightarrow> b \<notin> set t \<Longrightarrow> precedes a b (t @ xs) = precedes a b xs"
  by (induction t) auto

lemma precedes_append_right:
  "a \<notin> set ys \<Longrightarrow> b \<notin> set ys \<Longrightarrow> precedes a b (xs @ ys) = precedes a b xs"
  by (induction xs) (auto, induction ys, auto)

lemma only_after_append:
  "a \<notin> set t \<Longrightarrow> b \<notin> set t \<Longrightarrow> only_after a b (t @ xs) = only_after a b xs"
  by (induction t) auto

lemma only_after_append_right:
  "b \<notin> set ys \<Longrightarrow> only_after a b (xs @ ys) = only_after a b xs"
  by (induction xs) (auto, induction ys, auto)

lemma count_list_0: "x \<notin> set xs \<Longrightarrow> count_list xs x = 0"
  by (induction xs) auto

lemma events_after_append: "a \<notin> set t \<Longrightarrow> events_after a (t @ xs) = events_after a xs"
  by (induction t) (auto simp: events_after_def)

lemma events_after_append_right:
  "a \<in> set xs \<Longrightarrow> events_after a (xs @ ys) = events_after a xs @ ys"
  by (induction xs) (auto simp: events_after_def)

subsection \<open>The frame of lines 34 to 75 does not change the order of the later events\<close>

lemma startup_trace_events: "set (startup_trace cfg @ cpu_trace cfg) \<subseteq> startup_events"
  by (auto simp: startup_trace_def cpu_trace_def startup_events_def)

lemma startup_deferred_events: "set (concat (startup_deferred cfg)) \<subseteq> startup_events"
  by (auto simp: startup_deferred_def startup_events_def)

lemma mem_frame:
  assumes "set t \<subseteq> A" and "set (concat d) \<subseteq> A" and "x \<notin> A"
  shows "x \<in> set (events (frame t d r)) \<longleftrightarrow> x \<in> set (events r)"
  using assms by (auto simp: frame_def split: outcome.splits)

lemma precedes_frame:
  assumes "set t \<subseteq> A" and "set (concat d) \<subseteq> A" and "a \<notin> A" and "b \<notin> A"
  shows "precedes a b (events (frame t d r)) = precedes a b (events r)"
proof -
  from assms have "a \<notin> set t" "b \<notin> set t" "a \<notin> set (concat d)" "b \<notin> set (concat d)"
    by blast+
  then show ?thesis
    by (cases "outcome r")
      (simp_all add: frame_def precedes_append precedes_append_right del: set_concat)
qed

lemma only_after_frame:
  assumes "set t \<subseteq> A" and "set (concat d) \<subseteq> A" and "a \<notin> A" and "b \<notin> A"
  shows "only_after a b (events (frame t d r)) = only_after a b (events r)"
proof -
  from assms have "a \<notin> set t" "b \<notin> set t" "b \<notin> set (concat d)"
    by blast+
  then show ?thesis
    by (cases "outcome r")
      (simp_all add: frame_def only_after_append only_after_append_right del: set_concat)
qed

lemma count_list_frame:
  assumes "set t \<subseteq> A" and "set (concat d) \<subseteq> A" and "x \<notin> A"
  shows "count_list (events (frame t d r)) x = count_list (events r) x"
proof -
  from assms have "x \<notin> set t" "x \<notin> set (concat d)"
    by blast+
  then show ?thesis
    by (cases "outcome r") (simp_all add: frame_def count_list_0 del: set_concat)
qed

lemma events_after_frame:
  assumes "set t \<subseteq> A" and "a \<notin> A" and "a \<in> set (events r)" and "outcome r = Returned err"
  shows "events_after a (events (frame t d r)) = events_after a (events r) @ concat d"
proof -
  from assms have "a \<notin> set t"
    by blast
  with assms(3,4) show ?thesis
    by (simp add: frame_def events_after_append events_after_append_right)
qed

lemma outcome_frame: "outcome (frame t d r) = outcome r"
  by (simp add: frame_def)

lemma db_after_frame: "db_after (frame t d r) = db_after r"
  by (simp add: frame_def)

lemmas stage_defs = ltcdMain_doUpgrades_def ltcdMain_loadBlockDB_def ltcdMain_dropIndexes_def
  ltcdMain_server_def return_from_def blocked_at_def indexers_DropAddrIndex_def
  indexers_DropTxIndex_def

lemmas startup_defs = startup_trace_def cpu_trace_def startup_deferred_def

lemmas started_simps =
  mem_frame [OF startup_trace_events startup_deferred_events]
  precedes_frame [OF startup_trace_events startup_deferred_events]
  only_after_frame [OF startup_trace_events startup_deferred_events]
  count_list_frame [OF startup_trace_events startup_deferred_events]
  outcome_frame db_after_frame startup_events_def

lemmas example_defs = example_env_def example_cfg_def example_db_def dropTx_env_def
  dropBoth_env_def interrupted_env_def

section \<open>Startup order (claim C1)\<close>

lemma startup_order_core:
  fixes e cfg sc
  defines "evs \<equiv> events (ltcdMain_doUpgrades e cfg sc [] [])"
  shows "only_after (Call_doUpgrades None) (Call_loadBlockDB r1) evs
    \<and> only_after (Call_doUpgrades None) (Call_DropAddrIndex r2) evs
    \<and> only_after (Call_doUpgrades None) (Call_DropTxIndex r3) evs
    \<and> only_after (Call_doUpgrades None) (Call_newServer r4) evs
    \<and> only_after (Call_loadBlockDB None) (Call_DropAddrIndex r2) evs
    \<and> only_after (Call_loadBlockDB None) (Call_DropTxIndex r3) evs
    \<and> only_after (Call_loadBlockDB None) (Call_newServer r4) evs
    \<and> \<not> ((Call_DropAddrIndex r2 \<in> set evs \<or> Call_DropTxIndex r3 \<in> set evs)
          \<and> Call_newServer r4 \<in> set evs)
    \<and> (Call_server_Start \<in> set evs \<longrightarrow>
          precedes (Call_doUpgrades None) (Call_loadBlockDB None) evs
        \<and> precedes (Call_loadBlockDB None) (Call_newServer None) evs
        \<and> precedes (Call_newServer None) Call_server_Start evs)"
  unfolding evs_def by (simp add: stage_defs Let_def split: option.split)

text \<open>
  Claim C1, as amended.  In every run of \<open>ltcdMain\<close> the upgrade step comes first:
  \<open>loadBlockDB\<close>, the index drops and \<open>newServer\<close> are called only after
  \<open>doUpgrades\<close> has returned without error.  The index drops and the construction of the
  server happen only after the block database has been opened, and no run has both a drop
  and the construction of the server, so that no drop comes after the construction.  In a
  run that starts the server, the order is: upgrade, open, \<open>newServer\<close>, \<open>server.Start\<close>.
\<close>

theorem C1_startup_order:
  fixes e sc
  defines "evs \<equiv> events (ltcdMain e sc)"
  shows "only_after (Call_doUpgrades None) (Call_loadBlockDB r1) evs
    \<and> only_after (Call_doUpgrades None) (Call_DropAddrIndex r2) evs
    \<and> only_after (Call_doUpgrades None) (Call_DropTxIndex r3) evs
    \<and> only_after (Call_doUpgrades None) (Call_newServer r4) evs
    \<and> only_after (Call_loadBlockDB None) (Call_DropAddrIndex r2) evs
    \<and> only_after (Call_loadBlockDB None) (Call_DropTxIndex r3) evs
    \<and> only_after (Call_loadBlockDB None) (Call_newServer r4) evs
    \<and> \<not> ((Call_DropAddrIndex r2 \<in> set evs \<or> Call_DropTxIndex r3 \<in> set evs)
          \<and> Call_newServer r4 \<in> set evs)
    \<and> (Call_server_Start \<in> set evs \<longrightarrow>
          precedes (Call_doUpgrades None) (Call_loadBlockDB None) evs
        \<and> precedes (Call_loadBlockDB None) (Call_newServer None) evs
        \<and> precedes (Call_newServer None) Call_server_Start evs)"
proof (cases rule: ltcdMain_cases [where e = e and sc = sc])
  case (config_failed err)
  then show ?thesis by (simp add: evs_def return_from_def)
next
  case (profile_failed cfg err)
  then show ?thesis by (simp add: evs_def return_from_def startup_defs)
next
  case (started cfg)
  then show ?thesis
    using startup_order_core [where e = e and cfg = cfg and sc = sc and ?r1.0 = r1
        and ?r2.0 = r2 and ?r3.0 = r3 and ?r4.0 = r4]
    by (simp add: evs_def started_simps)
qed

text \<open>The run of \<open>example_env\<close> starts the server, in that order.\<close>

theorem C1_startup_order_witness:
  "Call_server_Start \<in> set (events (ltcdMain example_env None))
   \<and> precedes (Call_doUpgrades None) (Call_loadBlockDB None) (events (ltcdMain example_env None))
   \<and> precedes (Call_loadBlockDB None) (Call_newServer None) (events (ltcdMain example_env None))
   \<and> precedes (Call_newServer None) Call_server_Start (events (ltcdMain example_env None))"
proof -
  have h: "Call_server_Start \<in> set (events (ltcdMain example_env None))"
    by (simp add: ltcdMain_def stage_defs example_env_def example_cfg_def Let_def)
  from h C1_startup_order [where e = example_env and sc = None] show ?thesis by blast
qed

text \<open>
  Claim C1 as it is written fails: in the run of \<open>example_env\<close>, a startup that succeeds,
  the open step does not precede the upgrade step; the upgrade step precedes the open step.
\<close>

theorem C1_open_before_upgrade_counterexample:
  "Call_server_Start \<in> set (events (ltcdMain example_env None))
   \<and> outcome (ltcdMain example_env None) = Returned None
   \<and> \<not> precedes (Call_loadBlockDB None) (Call_doUpgrades None) (events (ltcdMain example_env None))
   \<and> precedes (Call_doUpgrades None) (Call_loadBlockDB None) (events (ltcdMain example_env None))"
  by (simp add: ltcdMain_def stage_defs example_env_def example_cfg_def Let_def)

section \<open>Shutdown order (claim C2)\<close>

lemma shutdown_order_core:
  fixes e cfg sc
  defines "r \<equiv> ltcdMain_doUpgrades e cfg sc [] []"
  shows "outcome r = Returned err \<longrightarrow>
     (Call_loadBlockDB None \<in> set (events r) \<longrightarrow>
        count_list (events r) Call_db_Close = 1
      \<and> precedes (Call_loadBlockDB None) Call_db_Close (events r))
   \<and> (Call_loadBlockDB None \<in> set (events r) \<and> Call_newServer None \<in> set (events r) \<longrightarrow>
        precedes Call_server_Stop Call_server_WaitForShutdown (events r)
      \<and> precedes Call_server_WaitForShutdown Call_db_Close (events r)
      \<and> count_list (events r) Call_server_Stop = 1
      \<and> count_list (events r) Call_server_WaitForShutdown = 1)"
  unfolding r_def by (simp add: stage_defs Let_def split: option.split)

text \<open>
  Claim C2.  In every run of \<open>ltcdMain\<close> that returns and in which the block database
  was opened, \<open>db.Close\<close> is called, exactly once, after the open.  If the server was
  constructed too, \<open>server.Stop\<close> and then \<open>server.WaitForShutdown\<close> are called, each
  exactly once, and both before \<open>db.Close\<close>.
\<close>

theorem C2_shutdown_order:
  fixes e sc
  defines "r \<equiv> ltcdMain e sc"
  assumes "outcome r = Returned err"
  shows "(Call_loadBlockDB None \<in> set (events r) \<longrightarrow>
        count_list (events r) Call_db_Close = 1
      \<and> precedes (Call_loadBlockDB None) Call_db_Close (events r))
   \<and> (Call_loadBlockDB None \<in> set (events r) \<and> Call_newServer None \<in> set (events r) \<longrightarrow>
        precedes Call_server_Stop Call_server_WaitForShutdown (events r)
      \<and> precedes Call_server_WaitForShutdown Call_db_Close (events r)
      \<and> count_list (events r) Call_server_Stop = 1
      \<and> count_list (events r) Call_server_WaitForShutdown = 1)"
proof (cases rule: ltcdMain_cases [where e = e and sc = sc])
  case (config_failed err)
  then show ?thesis by (simp add: r_def return_from_def)
next
  case (profile_failed cfg err)
  then show ?thesis by (simp add: r_def return_from_def startup_defs)
next
  case (started cfg)
  then show ?thesis
    using assms(2) shutdown_order_core [where e = e and cfg = cfg and sc = sc and err = err]
    by (simp add: r_def started_simps)
qed

text \<open>The run of \<open>example_env\<close> returns after it opened the database and constructed
  the server.\<close>

theorem C2_shutdown_order_witness:
  "outcome (ltcdMain example_env None) = Returned None
   \<and> Call_loadBlockDB None \<in> set (events (ltcdMain example_env None))
   \<and> Call_newServer None \<in> set (events (ltcdMain example_env None))
   \<and> precedes Call_server_Stop Call_server_WaitForShutdown (events (ltcdMain example_env None))
   \<and> precedes Call_server_WaitForShutdown Call_db_Close (events (ltcdMain example_env None))
   \<and> count_list (events (ltcdMain example_env None)) Call_db_Close = 1"
proof -
  have h: "outcome (ltcdMain example_env None) = Returned None"
    "Call_loadBlockDB None \<in> set (events (ltcdMain example_env None))"
    "Call_newServer None \<in> set (events (ltcdMain example_env None))"
    by (simp_all add: ltcdMain_def stage_defs example_env_def example_cfg_def Let_def)
  from h C2_shutdown_order [where e = example_env and sc = None and err = None]
  show ?thesis by blast
qed

section \<open>Fatal errors after the database was opened (claim C3)\<close>

lemma fatal_error_core:
  fixes e cfg sc
  defines "r \<equiv> ltcdMain_doUpgrades e cfg sc [] []"
  shows "(Call_DropAddrIndex (Some err) \<in> set (events r)
      \<or> Call_DropTxIndex (Some err) \<in> set (events r)
      \<or> Call_newServer (Some err) \<in> set (events r)) \<longrightarrow>
     outcome r = Returned (Some err)
   \<and> Call_newServer None \<notin> set (events r)
   \<and> Call_server_Start \<notin> set (events r)
   \<and> count_list (events r) Call_db_Close = 1
   \<and> precedes (Call_loadBlockDB None) Call_db_Close (events r)
   \<and> (Call_DropAddrIndex (Some err) \<in> set (events r) \<longrightarrow>
        precedes (Call_DropAddrIndex (Some err)) Call_db_Close (events r))
   \<and> (Call_DropTxIndex (Some err) \<in> set (events r) \<longrightarrow>
        precedes (Call_DropTxIndex (Some err)) Call_db_Close (events r))
   \<and> (Call_newServer (Some err) \<in> set (events r) \<longrightarrow>
        precedes (Call_newServer (Some err)) Call_db_Close (events r))"
  unfolding r_def by (simp add: stage_defs Let_def split: option.split)

text \<open>
  Claim C3.  When an index drop or \<open>newServer\<close> fails with \<open>err\<close>, \<open>ltcdMain\<close>
  returns \<open>err\<close>; no server has been constructed and none is started; \<open>db.Close\<close> is
  called, exactly once, after the open and after the call that failed.
\<close>

theorem C3_fatal_error_after_open:
  fixes e sc
  defines "r \<equiv> ltcdMain e sc"
  assumes "Call_DropAddrIndex (Some err) \<in> set (events r)
      \<or> Call_DropTxIndex (Some err) \<in> set (events r)
      \<or> Call_newServer (Some err) \<in> set (events r)"
  shows "outcome r = Returned (Some err)
   \<and> Call_newServer None \<notin> set (events r)
   \<and> Call_server_Start \<notin> set (events r)
   \<and> count_list (events r) Call_db_Close = 1
   \<and> precedes (Call_loadBlockDB None) Call_db_Close (events r)
   \<and> (Call_DropAddrIndex (Some err) \<in> set (events r) \<longrightarrow>
        precedes (Call_DropAddrIndex (Some err)) Call_db_Close (events r))
   \<and> (Call_DropTxIndex (Some err) \<in> set (events r) \<longrightarrow>
        precedes (Call_DropTxIndex (Some err)) Call_db_Close (events r))
   \<and> (Call_newServer (Some err) \<in> set (events r) \<longrightarrow>
        precedes (Call_newServer (Some err)) Call_db_Close (events r))"
proof (cases rule: ltcdMain_cases [where e = e and sc = sc])
  case (config_failed err')
  then show ?thesis using assms(2) by (simp add: r_def return_from_def)
next
  case (profile_failed cfg err')
  then show ?thesis using assms(2) by (simp add: r_def return_from_def startup_defs)
next
  case (started cfg)
  then show ?thesis
    using assms(2) fatal_error_core [where e = e and cfg = cfg and sc = sc and err = err]
    by (simp add: r_def started_simps)
qed

text \<open>A run in which \<open>newServer\<close> fails.\<close>

theorem C3_fatal_error_after_open_witness:
  "Call_newServer (Some (OtherError ''listen''))
     \<in> set (events (ltcdMain (example_env\<lparr>newServer := Some (OtherError ''listen'')\<rparr>) None))
   \<and> outcome (ltcdMain (example_env\<lparr>newServer := Some (OtherError ''listen'')\<rparr>) None)
       = Returned (Some (OtherError ''listen''))
   \<and> Call_server_Start
       \<notin> set (events (ltcdMain (example_env\<lparr>newServer := Some (OtherError ''listen'')\<rparr>) None))
   \<and> count_list (events (ltcdMain (example_env\<lparr>newServer := Some (OtherError ''listen'')\<rparr>) None))
       Call_db_Close = 1"
proof -
  have h: "Call_newServer (Some (OtherError ''listen''))
     \<in> set (events (ltcdMain (example_env\<lparr>newServer := Some (OtherError ''listen'')\<rparr>) None))"
    by (simp add: ltcdMain_def stage_defs example_env_def example_cfg_def Let_def)
  from h C3_fatal_error_after_open
    [where e = "example_env\<lparr>newServer := Some (OtherError ''listen'')\<rparr>" and sc = None
       and err = "OtherError ''listen''"]
  show ?thesis by blast
qed

section \<open>Index drop and exit (claims C4 and C9)\<close>

lemma DropIndex_AddressIndex: "DropIndex AddressIndex s = s\<lparr>addr_index := None\<rparr>"
  by (simp add: DropIndex_def)

lemma DropIndex_TransactionIndex:
  "DropIndex TransactionIndex s = s\<lparr>tx_index := None, addr_index := None\<rparr>"
  by (cases "addr_index s") (simp_all add: DropIndex_def)




lemma both_flags_core:
  fixes e cfg sc
  defines "r \<equiv> ltcdMain_doUpgrades e cfg sc [] []"
  assumes "DropAddrIndex cfg" and "DropTxIndex cfg"
  shows "Call_DropTxIndex res \<notin> set (events r)
   \<and> tx_index (db_after r) = tx_index (blockdb e)
   \<and> (Call_loadBlockDB None \<in> set (events r) \<and> Call_interruptRequested True \<notin> set (events r) \<longrightarrow>
        Call_DropAddrIndex (DropAddrIndex_failure e) \<in> set (events r)
      \<and> outcome r = Returned (DropAddrIndex_failure e)
      \<and> Call_newServer res \<notin> set (events r)
      \<and> Call_server_Start \<notin> set (events r)
      \<and> db_after r =
          (if DropAddrIndex_failure e = None then DropIndex AddressIndex (blockdb e)
           else blockdb e))"
  unfolding r_def using assms(2,3)
  by (simp add: stage_defs Let_def DropIndex_AddressIndex split: option.split)

text \<open>
  Claim C9.  When both \<open>DropAddrIndex\<close> and \<open>DropTxIndex\<close> are set,
  \<open>indexers.DropTxIndex\<close> is never called and the transaction index stays as it was.  A
  run that opened the database and met no interrupt calls \<open>indexers.DropAddrIndex\<close> and
  returns what that call returned, without constructing the server: the address index,
  and nothing else, is dropped.
\<close>

theorem C9_both_flags_drop_address_index_only:
  fixes e sc
  defines "r \<equiv> ltcdMain e sc"
  assumes "loadConfig e = Inr cfg" and "DropAddrIndex cfg" and "DropTxIndex cfg"
  shows "Call_DropTxIndex res \<notin> set (events r)
   \<and> tx_index (db_after r) = tx_index (blockdb e)
   \<and> (Call_loadBlockDB None \<in> set (events r) \<and> Call_interruptRequested True \<notin> set (events r) \<longrightarrow>
        Call_DropAddrIndex (DropAddrIndex_failure e) \<in> set (events r)
      \<and> outcome r = Returned (DropAddrIndex_failure e)
      \<and> Call_newServer res \<notin> set (events r)
      \<and> Call_server_Start \<notin> set (events r)
      \<and> db_after r =
          (if DropAddrIndex_failure e = None then DropIndex AddressIndex (blockdb e)
           else blockdb e))"
proof (cases rule: ltcdMain_cases [where e = e and sc = sc])
  case (config_failed err)
  then show ?thesis using assms(2) by simp
next
  case (profile_failed cfg' err)
  then show ?thesis by (simp add: r_def return_from_def startup_defs)
next
  case (started cfg')
  with assms(2) have "cfg' = cfg" by simp
  with started show ?thesis
    using both_flags_core [where e = e and cfg = cfg and sc = sc and res = res, OF assms(3,4)]
    by (simp add: r_def started_simps)
qed

text \<open>A run with both flags set, on a database that has both indexes.\<close>

theorem C9_both_flags_drop_address_index_only_witness:
  "loadConfig dropBoth_env = Inr (example_cfg\<lparr>DropAddrIndex := True, DropTxIndex := True\<rparr>)
   \<and> DropAddrIndex (example_cfg\<lparr>DropAddrIndex := True, DropTxIndex := True\<rparr>)
   \<and> DropTxIndex (example_cfg\<lparr>DropAddrIndex := True, DropTxIndex := True\<rparr>)
   \<and> Call_loadBlockDB None \<in> set (events (ltcdMain dropBoth_env None))
   \<and> Call_interruptRequested True \<notin> set (events (ltcdMain dropBoth_env None))
   \<and> Call_DropTxIndex None \<notin> set (events (ltcdMain dropBoth_env None))
   \<and> Call_DropAddrIndex None \<in> set (events (ltcdMain dropBoth_env None))
   \<and> outcome (ltcdMain dropBoth_env None) = Returned None
   \<and> tx_index (db_after (ltcdMain dropBoth_env None)) = Some [(7, 1, 0)]
   \<and> addr_index (db_after (ltcdMain dropBoth_env None)) = None"
proof -
  have h: "loadConfig dropBoth_env = Inr (example_cfg\<lparr>DropAddrIndex := True, DropTxIndex := True\<rparr>)"
    "DropAddrIndex (example_cfg\<lparr>DropAddrIndex := True, DropTxIndex := True\<rparr>)"
    "DropTxIndex (example_cfg\<lparr>DropAddrIndex := True, DropTxIndex := True\<rparr>)"
    "Call_loadBlockDB None \<in> set (events (ltcdMain dropBoth_env None))"
    "Call_interruptRequested True \<notin> set (events (ltcdMain dropBoth_env None))"
    by (simp_all add: ltcdMain_def stage_defs example_defs Let_def)
  have v: "DropAddrIndex_failure dropBoth_env = None" "blockdb dropBoth_env = example_db"
    by (simp_all add: example_defs)
  from h C9_both_flags_drop_address_index_only [OF h(1,2,3), where sc = None and res = None]
  show ?thesis
    by (simp add: v example_db_def DropIndex_AddressIndex)
qed

section \<open>Interrupts during startup (claims C6 and C10)\<close>

lemma startup_deferred_concat:
  "concat (startup_deferred cfg) =
     (if CPUProfile cfg \<noteq> [] then [Call_StopCPUProfile, Call_f_Close] else [])
     @ [Log_ShutdownComplete, Call_backendLog_Flush]"
  by (simp add: startup_deferred_def)

lemma interrupt_core:
  fixes e cfg sc
  defines "r \<equiv> ltcdMain_doUpgrades e cfg sc [] []"
  assumes "Call_interruptRequested True \<in> set (events r)"
  shows "outcome r = Returned None"
    and "events_after (Call_interruptRequested True) (events r) =
          (if Call_loadBlockDB None \<in> set (events r) then [Log_DbShutdown, Call_db_Close] else [])"
    and "interruptRequested_1 e \<or> interruptRequested_2 e"
    and "Call_loadBlockDB None \<in> set (events r) \<longrightarrow> count_list (events r) Call_db_Close = 1"
  using assms(2) unfolding r_def
  by (simp_all add: stage_defs Let_def events_after_def split: option.split_asm if_split_asm)

lemma interrupt_started:
  assumes "ltcdMain e sc =
             frame (startup_trace cfg @ cpu_trace cfg) (startup_deferred cfg)
               (ltcdMain_doUpgrades e cfg sc [] [])"
    and "Call_interruptRequested True \<in> set (events (ltcdMain e sc))"
  shows "outcome (ltcdMain e sc) = Returned None"
    and "events_after (Call_interruptRequested True) (events (ltcdMain e sc)) =
          (if Call_loadBlockDB None \<in> set (events (ltcdMain e sc))
           then [Log_DbShutdown, Call_db_Close] else [])
          @ concat (startup_deferred cfg)"
    and "interruptRequested_1 e \<or> interruptRequested_2 e"
    and "Call_loadBlockDB None \<in> set (events (ltcdMain e sc)) \<longrightarrow>
           count_list (events (ltcdMain e sc)) Call_db_Close = 1"
proof -
  let ?core = "ltcdMain_doUpgrades e cfg sc [] []"
  from assms have in_core: "Call_interruptRequested True \<in> set (events ?core)"
    by (simp add: started_simps)
  note core = interrupt_core [OF in_core]
  show "outcome (ltcdMain e sc) = Returned None"
    using core(1) by (simp add: assms(1) outcome_frame)
  show "events_after (Call_interruptRequested True) (events (ltcdMain e sc)) =
          (if Call_loadBlockDB None \<in> set (events (ltcdMain e sc))
           then [Log_DbShutdown, Call_db_Close] else [])
          @ concat (startup_deferred cfg)"
    using core(2) events_after_frame [OF startup_trace_events _ in_core core(1)]
    by (simp add: assms(1) started_simps)
  show "interruptRequested_1 e \<or> interruptRequested_2 e"
    by (rule core(3))
  show "Call_loadBlockDB None \<in> set (events (ltcdMain e sc)) \<longrightarrow>
           count_list (events (ltcdMain e sc)) Call_db_Close = 1"
    using core(4) by (simp add: assms(1) started_simps)
qed

lemma interrupt_skips_core:
  fixes e cfg sc
  defines "r \<equiv> ltcdMain_doUpgrades e cfg sc [] []"
  shows "(interruptRequested_1 e \<longrightarrow>
        Call_loadBlockDB res \<notin> set (events r) \<and> Call_DropAddrIndex res \<notin> set (events r)
      \<and> Call_DropTxIndex res \<notin> set (events r) \<and> Call_newServer res \<notin> set (events r)
      \<and> Call_server_Start \<notin> set (events r))
   \<and> (interruptRequested_2 e \<longrightarrow>
        Call_DropAddrIndex res \<notin> set (events r) \<and> Call_DropTxIndex res \<notin> set (events r)
      \<and> Call_newServer res \<notin> set (events r) \<and> Call_server_Start \<notin> set (events r))"
  unfolding r_def by (simp add: stage_defs Let_def split: option.split)

text \<open>
  Claim C6.  When \<open>interruptRequested\<close> returns true at the first checkpoint, the block
  database is not loaded, no index is dropped, no server is constructed or started; when it
  returns true at the second checkpoint, no index is dropped and no server is constructed
  or started.  After a checkpoint that returned true, only deferred calls of the shutdown
  sequence run, and \<open>db.Close\<close> is among them, called exactly once, if the database was
  opened.
\<close>

theorem C6_interrupt_skips_startup:
  fixes e sc
  defines "evs \<equiv> events (ltcdMain e sc)"
  shows "(interruptRequested_1 e \<longrightarrow>
        Call_loadBlockDB res \<notin> set evs \<and> Call_DropAddrIndex res \<notin> set evs
      \<and> Call_DropTxIndex res \<notin> set evs \<and> Call_newServer res \<notin> set evs
      \<and> Call_server_Start \<notin> set evs)
   \<and> (interruptRequested_2 e \<longrightarrow>
        Call_DropAddrIndex res \<notin> set evs \<and> Call_DropTxIndex res \<notin> set evs
      \<and> Call_newServer res \<notin> set evs \<and> Call_server_Start \<notin> set evs)
   \<and> (Call_interruptRequested True \<in> set evs \<longrightarrow>
        (interruptRequested_1 e \<or> interruptRequested_2 e)
      \<and> set (events_after (Call_interruptRequested True) evs)
          \<subseteq> {Log_DbShutdown, Call_db_Close, Call_StopCPUProfile, Call_f_Close,
              Log_ShutdownComplete, Call_backendLog_Flush}
      \<and> (Call_loadBlockDB None \<in> set evs \<longrightarrow>
            Call_db_Close \<in> set (events_after (Call_interruptRequested True) evs)
          \<and> count_list evs Call_db_Close = 1))"
proof (cases rule: ltcdMain_cases [where e = e and sc = sc])
  case (config_failed err)
  then show ?thesis by (simp add: evs_def return_from_def)
next
  case (profile_failed cfg err)
  then show ?thesis by (simp add: evs_def return_from_def startup_defs)
next
  case (started cfg)
  have skip: "(interruptRequested_1 e \<longrightarrow>
        Call_loadBlockDB res \<notin> set evs \<and> Call_DropAddrIndex res \<notin> set evs
      \<and> Call_DropTxIndex res \<notin> set evs \<and> Call_newServer res \<notin> set evs
      \<and> Call_server_Start \<notin> set evs)
   \<and> (interruptRequested_2 e \<longrightarrow>
        Call_DropAddrIndex res \<notin> set evs \<and> Call_DropTxIndex res \<notin> set evs
      \<and> Call_newServer res \<notin> set evs \<and> Call_server_Start \<notin> set evs)"
    using started interrupt_skips_core [where e = e and cfg = cfg and sc = sc and res = res]
    by (simp add: evs_def started_simps)
  have shutdown: "(interruptRequested_1 e \<or> interruptRequested_2 e)
      \<and> set (events_after (Call_interruptRequested True) evs)
          \<subseteq> {Log_DbShutdown, Call_db_Close, Call_StopCPUProfile, Call_f_Close,
              Log_ShutdownComplete, Call_backendLog_Flush}
      \<and> (Call_loadBlockDB None \<in> set evs \<longrightarrow>
            Call_db_Close \<in> set (events_after (Call_interruptRequested True) evs)
          \<and> count_list evs Call_db_Close = 1)"
    if "Call_interruptRequested True \<in> set evs"
    using interrupt_started [OF started(2) that [unfolded evs_def]]
    by (auto simp add: evs_def startup_deferred_concat)
  from skip shutdown show ?thesis by blast
qed

text \<open>A run interrupted at the second checkpoint.\<close>

theorem C6_interrupt_skips_startup_witness:
  "interruptRequested_2 interrupted_env
   \<and> Call_interruptRequested True \<in> set (events (ltcdMain interrupted_env None))
   \<and> Call_loadBlockDB None \<in> set (events (ltcdMain interrupted_env None))
   \<and> Call_newServer None \<notin> set (events (ltcdMain interrupted_env None))
   \<and> Call_server_Start \<notin> set (events (ltcdMain interrupted_env None))
   \<and> Call_db_Close
       \<in> set (events_after (Call_interruptRequested True) (events (ltcdMain interrupted_env None)))
   \<and> count_list (events (ltcdMain interrupted_env None)) Call_db_Close = 1"
proof -
  have h: "interruptRequested_2 interrupted_env"
    "Call_interruptRequested True \<in> set (events (ltcdMain interrupted_env None))"
    "Call_loadBlockDB None \<in> set (events (ltcdMain interrupted_env None))"
    by (simp_all add: ltcdMain_def stage_defs example_defs Let_def)
  from h C6_interrupt_skips_startup [where e = interrupted_env and sc = None and res = None]
  show ?thesis by blast
qed

lemma no_StartCPUProfile_core:
  "Call_StartCPUProfile \<notin> set (events (ltcdMain_doUpgrades e cfg sc [] []))"
  by (simp add: stage_defs Let_def split: option.split)

text \<open>
  Claim C10.  A run in which \<open>interruptRequested\<close> returned true at a checkpoint returns
  \<open>nil\<close>; after the checkpoint exactly the calls deferred so far run, the last deferred
  first: the close of the database if it was opened, the stop of the CPU profile and the
  close of its file if it was started, the log line ``Shutdown complete'' and the flush of
  the log.  \<open>main\<close>, when it gets as far as \<open>ltcdMain(nil)\<close>, then exits with status 0.
\<close>

theorem C10_interrupt_returns_nil:
  fixes e sc
  defines "evs \<equiv> events (ltcdMain e sc)"
  assumes "Call_interruptRequested True \<in> set evs"
  shows "outcome (ltcdMain e sc) = Returned None
   \<and> events_after (Call_interruptRequested True) evs =
        (if Call_loadBlockDB None \<in> set evs then [Log_DbShutdown, Call_db_Close] else [])
        @ (if Call_StartCPUProfile \<in> set evs then [Call_StopCPUProfile, Call_f_Close] else [])
        @ [Log_ShutdownComplete, Call_backendLog_Flush]
   \<and> (sc = None \<and> SetLimits m = None \<and> (GOOS m = ''windows'' \<longrightarrow> snd (winServiceMain m) = None)
        \<longrightarrow> main m e = Some 0)"
proof (cases rule: ltcdMain_cases [where e = e and sc = sc])
  case (config_failed err)
  then show ?thesis using assms(2) by (simp add: evs_def return_from_def)
next
  case (profile_failed cfg err)
  then show ?thesis using assms(2) by (simp add: evs_def return_from_def startup_defs)
next
  case (started cfg)
  note int = interrupt_started [OF started(2) assms(2) [unfolded evs_def]]
  have "outcome (ltcdMain_doUpgrades e cfg sc [] []) = Returned None"
    using int(1) by (simp add: started(2) outcome_frame)
  then have cpu: "Call_StartCPUProfile \<in> set evs \<longleftrightarrow> CPUProfile cfg \<noteq> []"
    using no_StartCPUProfile_core [of e cfg sc]
    by (simp add: evs_def started(2) frame_def startup_defs)
  have exit: "main m e = Some 0"
    if "sc = None" "SetLimits m = None" "GOOS m = ''windows'' \<longrightarrow> snd (winServiceMain m) = None"
    using int(1) that by (auto simp add: main_def Let_def split: prod.split option.split)
  from int(1,2) cpu exit show ?thesis
    by (simp add: evs_def startup_deferred_concat)
qed

text \<open>The run interrupted at the second checkpoint, on a system other than Windows.\<close>

theorem C10_interrupt_returns_nil_witness:
  "Call_interruptRequested True \<in> set (events (ltcdMain interrupted_env None))
   \<and> outcome (ltcdMain interrupted_env None) = Returned None
   \<and> events_after (Call_interruptRequested True) (events (ltcdMain interrupted_env None)) =
        [Log_DbShutdown, Call_db_Close, Log_ShutdownComplete, Call_backendLog_Flush]
   \<and> main \<lparr>SetLimits = None, GOOS = ''linux'', winServiceMain = (False, None)\<rparr> interrupted_env
       = Some 0"
proof -
  have h: "Call_interruptRequested True \<in> set (events (ltcdMain interrupted_env None))"
    by (simp add: ltcdMain_def stage_defs example_defs Let_def)
  have v: "Call_loadBlockDB None \<in> set (events (ltcdMain interrupted_env None))"
    "Call_StartCPUProfile \<notin> set (events (ltcdMain interrupted_env None))"
    by (simp_all add: ltcdMain_def stage_defs example_defs Let_def)
  from C10_interrupt_returns_nil [OF h,
      where m = "\<lparr>SetLimits = None, GOOS = ''linux'', winServiceMain = (False, None)\<rparr>"]
  show ?thesis using h v by simp
qed

section \<open>Dropping the transaction index (claim C5)\<close>

text \<open>
  Claim C5.  In every store state in which the address index exists,
  \<open>DropIndex(TransactionIndex)\<close> removes the address index and then the transaction index:
  afterwards \<open>HasIndex(AddressIndex)\<close> and \<open>HasIndex(TransactionIndex)\<close> are both false.
\<close>

theorem C5_drop_transaction_index_removes_both:
  assumes "HasIndex AddressIndex s"
  shows "\<not> HasIndex AddressIndex (DropIndex TransactionIndex s)
   \<and> \<not> HasIndex TransactionIndex (DropIndex TransactionIndex s)
   \<and> drop_steps TransactionIndex s = [AddressIndex, TransactionIndex]"
  using assms by (simp add: DropIndex_TransactionIndex)

text \<open>A store that has both indexes.\<close>

theorem C5_drop_transaction_index_removes_both_witness:
  "HasIndex AddressIndex example_db
   \<and> HasIndex TransactionIndex example_db
   \<and> \<not> HasIndex AddressIndex (DropIndex TransactionIndex example_db)
   \<and> \<not> HasIndex TransactionIndex (DropIndex TransactionIndex example_db)"
proof -
  have h: "HasIndex AddressIndex example_db" "HasIndex TransactionIndex example_db"
    by (simp_all add: example_db_def)
  from h C5_drop_transaction_index_removes_both [OF h(1)] show ?thesis by blast
qed

section \<open>Connect and disconnect (claim C7)\<close>

text \<open>
  Claim C7.  When \<open>ConnectBlock(b, spendRecord)\<close> succeeds in the chain state \<open>S\<close>, the
  \<open>DisconnectTip()\<close> that follows succeeds, returns \<open>b\<close>, and yields the tip and the
  chain index entries of \<open>S\<close> and the spend journal of \<open>S\<close> with the entry of \<open>b\<close>
  absent; this is \<open>S\<close> itself when \<open>S\<close> holds no spend journal entry of \<open>b\<close>.
\<close>

theorem C7_connect_disconnect_round_trip:
  assumes "ConnectBlock b spendRecord S = Inr S'"
  shows "DisconnectTip S' = Inr (b, S\<lparr>spend_journal := (spend_journal S)(b := None)\<rparr>)
   \<and> (spend_journal S b = None \<longrightarrow> DisconnectTip S' = Inr (b, S))"
proof -
  from assms obtain entry where entry: "chain_index S b = Some entry"
      "parent entry = Some (tip S)"
    and S': "S' = S\<lparr>tip := b, spend_journal := (spend_journal S)(b \<mapsto> spendRecord)\<rparr>"
    by (auto simp: ConnectBlock_def split: option.splits if_splits)
  have 1: "DisconnectTip S' = Inr (b, S\<lparr>spend_journal := (spend_journal S)(b := None)\<rparr>)"
    by (simp add: DisconnectTip_def S' entry)
  moreover have "S\<lparr>spend_journal := (spend_journal S)(b := None)\<rparr> = S" if "spend_journal S b = None"
  proof -
    from that have "(spend_journal S)(b := None) = spend_journal S"
      by (simp add: fun_upd_idem)
    then show ?thesis by simp
  qed
  ultimately show ?thesis by simp
qed

text \<open>Genesis is the tip, block 1 on top of it is connected and disconnected.\<close>

theorem C7_connect_disconnect_round_trip_witness:
  "ConnectBlock 1 [(7, 0)] example_chain
     = Inr (example_chain\<lparr>tip := 1, spend_journal := [1 \<mapsto> [(7, 0)]]\<rparr>)
   \<and> spend_journal example_chain 1 = None
   \<and> DisconnectTip (example_chain\<lparr>tip := 1, spend_journal := [1 \<mapsto> [(7, 0)]]\<rparr>)
     = Inr (1, example_chain)"
proof -
  have h: "ConnectBlock 1 [(7, 0)] example_chain
     = Inr (example_chain\<lparr>tip := 1, spend_journal := [1 \<mapsto> [(7, 0)]]\<rparr>)"
    "spend_journal example_chain 1 = None"
    by (simp_all add: ConnectBlock_def example_chain_def)
  from h C7_connect_disconnect_round_trip [OF h(1)] show ?thesis by blast
qed

section \<open>The Upgrade Engine at the current version (claim C8)\<close>

lemma apply_migrations_version:
  "apply_migrations steps s = (None, s') \<Longrightarrow> schema_version s' = schema_version s + length steps"
  by (induction steps arbitrary: s) (auto split: sum.splits)

lemma upgrade_current: "schema_version s = length steps \<Longrightarrow> upgrade steps s = (None, s)"
  by (simp add: upgrade_def)

lemma upgrade_reaches_current:
  assumes "upgrade steps s = (None, s')"
  shows "schema_version s' = length steps"
proof (cases "schema_version s < length steps")
  case True
  with assms have "apply_migrations (drop (schema_version s) steps) s = (None, s')"
    by (simp add: upgrade_def Let_def)
  from apply_migrations_version [OF this] True show ?thesis by simp
next
  case False
  with assms show ?thesis
    by (auto simp: upgrade_def Let_def split: if_splits)
qed

text \<open>
  Claim C8.  When the stored schema version is the current one, the Upgrade Engine changes
  nothing, also when it runs twice in a row; the store that a successful upgrade leaves is
  left unchanged by the next upgrade.  When the stored version exceeds the current one, the
  engine fails with \<open>UnsupportedVersionError\<close> and changes nothing.
\<close>

theorem C8_upgrade_at_current_version:
  "(schema_version s = length steps \<longrightarrow>
      upgrade steps s = (None, s) \<and> upgrade steps (snd (upgrade steps s)) = (None, s))
   \<and> (upgrade steps s = (None, s') \<longrightarrow> upgrade steps s' = (None, s'))
   \<and> (length steps < schema_version s \<longrightarrow> upgrade steps s = (Some UnsupportedVersionError, s))"
proof -
  have "upgrade steps s' = (None, s')" if "upgrade steps s = (None, s')"
    using upgrade_reaches_current [OF that] by (rule upgrade_current)
  moreover have "upgrade steps s = (Some UnsupportedVersionError, s)"
    if "length steps < schema_version s"
    using that by (simp add: upgrade_def Let_def)
  ultimately show ?thesis
    by (simp add: upgrade_current)
qed

text \<open>Two migration steps, and stores at the versions 2, 0 and 3.\<close>

theorem C8_upgrade_at_current_version_witness:
  "schema_version \<lparr>schema_version = 2, stored_bytes = [5]\<rparr> = length example_steps
   \<and> upgrade example_steps \<lparr>schema_version = 2, stored_bytes = [5]\<rparr>
       = (None, \<lparr>schema_version = 2, stored_bytes = [5]\<rparr>)
   \<and> upgrade example_steps \<lparr>schema_version = 0, stored_bytes = [5]\<rparr>
       = (None, \<lparr>schema_version = 2, stored_bytes = [0, 5, 1]\<rparr>)
   \<and> upgrade example_steps \<lparr>schema_version = 2, stored_bytes = [0, 5, 1]\<rparr>
       = (None, \<lparr>schema_version = 2, stored_bytes = [0, 5, 1]\<rparr>)
   \<and> length example_steps < schema_version \<lparr>schema_version = 3, stored_bytes = [5]\<rparr>
   \<and> upgrade example_steps \<lparr>schema_version = 3, stored_bytes = [5]\<rparr>
       = (Some UnsupportedVersionError, \<lparr>schema_version = 3, stored_bytes = [5]\<rparr>)"
proof -
  have h: "schema_version \<lparr>schema_version = 2, stored_bytes = [5]\<rparr> = length example_steps"
    "upgrade example_steps \<lparr>schema_version = 0, stored_bytes = [5]\<rparr>
       = (None, \<lparr>schema_version = 2, stored_bytes = [0, 5, 1]\<rparr>)"
    "length example_steps < schema_version \<lparr>schema_version = 3, stored_bytes = [5]\<rparr>"
    by (simp_all add: example_steps_def upgrade_def)
  from h
    C8_upgrade_at_current_version [where steps = example_steps
      and s = "\<lparr>schema_version = 2, stored_bytes = [5]\<rparr>"]
    C8_upgrade_at_current_version [where steps = example_steps
      and s = "\<lparr>schema_version = 0, stored_bytes = [5]\<rparr>"
      and s' = "\<lparr>schema_version = 2, stored_bytes = [0, 5, 1]\<rparr>"]
    C8_upgrade_at_current_version [where steps = example_steps
      and s = "\<lparr>schema_version = 3, stored_bytes = [5]\<rparr>"]
  show ?thesis by blast
qed

end
